theory Spec2Isabelle
  imports Main "HOL-Library.Sublist"
begin

section \<open>Prompt Companion: the session controller of \<open>frontend/src/App.js\<close>\<close>

text \<open>
  The React component \<open>App\<close> keeps its state in \<open>useState\<close> cells. The embedding
  makes that state a record, every handler a function from the state before to the
  state after (all the setters the handler calls, applied in order), and every
  \<open>useEffect\<close> body a function of its own, because React runs it after the render
  that follows the handler and not inside the handler.

  Strings are lists of bytes (the UTF-8 text). A JavaScript object used as a
  dictionary (\<open>chatHistory\<close>) is an association list in insertion order.
\<close>

subsection \<open>Data\<close>

text \<open>A field that a JSON payload may lack: \<open>undefined\<close>, or a string.\<close>

datatype jsval = Undefined | Str string

text \<open>What a template literal prints for such a value.\<close>

fun to_string :: "jsval \<Rightarrow> string" where
  "to_string Undefined = ''undefined''"
| "to_string (Str s) = s"

text \<open>An entry of \<open>sections\<close>. The field \<open>id\<close> is \<open>sec_id\<close> here.\<close>

record sect =
  sec_id :: string
  name :: string
  color :: string
  examples :: "string list"

definition health :: sect where
  "health = \<lparr>sec_id = ''health'', name = ''Health'', color = ''bg-green-500'',
     examples = [''How to boost immunity?'', ''Best exercises for beginners'', ''Healthy meal ideas'']\<rparr>"

definition banking :: sect where
  "banking = \<lparr>sec_id = ''banking'', name = ''Banking'', color = ''bg-yellow-500'',
     examples = [''Investment tips'', ''Credit card advice'', ''Saving strategies'']\<rparr>"

definition general :: sect where
  "general = \<lparr>sec_id = ''general'', name = ''General'', color = ''bg-blue-500'',
     examples = [''Explain quantum physics'', ''Travel recommendations'', ''Cooking tips'']\<rparr>"

definition movies :: sect where
  "movies = \<lparr>sec_id = ''movies'', name = ''Movies'', color = ''bg-purple-500'',
     examples = [''Best sci-fi movies'', ''Movie recommendations'', ''Film analysis'']\<rparr>"

definition music :: sect where
  "music = \<lparr>sec_id = ''music'', name = ''Music'', color = ''bg-pink-500'',
     examples = [''Music recommendations'', ''Artist analysis'', ''Genre exploration'']\<rparr>"

definition sections :: "sect list" where
  "sections = [health, banking, general, movies, music]"

text \<open>
  A message \<open>{role, content, timestamp}\<close>. The role is the string the code writes
  (\<open>'user'\<close> or \<open>'assistant'\<close>); the content of an assistant message is whatever
  \<open>data.response\<close> was; the timestamp is the text of \<open>new Date().toISOString()\<close>.
\<close>

record message =
  role :: string
  content :: jsval
  timestamp :: string

type_synonym chat_history = "(string \<times> message list) list"

text \<open>The body of a successful reply, \<open>await res.json()\<close>, read the way the code reads
  it: the truthiness of \<open>data.redirect\<close>, and the fields \<open>data.section\<close> and
  \<open>data.response\<close>.\<close>

record api_data =
  redirect :: bool
  "section" :: jsval
  response :: jsval

text \<open>How the awaited remote call can end: \<open>fetch\<close> rejects, the status is not
  2xx (\<open>!res.ok\<close>), \<open>res.json()\<close> rejects because the body is not JSON, or a JSON
  object arrives, with or without the fields the code reads.\<close>

datatype fetch_outcome = NetworkError | HttpError | InvalidJson | Ok api_data

datatype js_error = TypeError

text \<open>The \<open>useState\<close> cells. For \<open>currentSection\<close>, \<open>None\<close> is \<open>null\<close> or
  \<open>undefined\<close>: the code only tests its truthiness.\<close>

record app_state =
  currentSection :: "sect option"
  prompt :: string
  result :: "api_data option"
  isLoading :: bool
  error :: "string option"
  toast :: "string option"
  theme :: string
  chatHistory :: chat_history
  isTyping :: bool

text \<open>Their initial values.\<close>

definition initial_state :: app_state where
  "initial_state =
    \<lparr>currentSection = None, prompt = '''', result = None, isLoading = False,
     error = None, toast = None, theme = ''dark'', chatHistory = [], isTyping = False\<rparr>"

text \<open>The two records of \<open>localStorage\<close>. The JSON text under \<open>'chatHistory'\<close> is
  represented by the object it parses to.\<close>

record local_storage =
  ls_currentSection :: "string option"
  ls_chatHistory :: "chat_history option"

subsection \<open>Objects as dictionaries\<close>

text \<open>\<open>{...prev, [k]: v}\<close>: an existing key keeps its place, a new key goes last.\<close>

fun spread_set :: "string \<Rightarrow> message list \<Rightarrow> chat_history \<Rightarrow> chat_history" where
  "spread_set k v [] = [(k, v)]"
| "spread_set k v (p # ps) = (if fst p = k then (k, v) # ps else p # spread_set k v ps)"

text \<open>\<open>h[k] || []\<close>: an array is always truthy, so only a missing key gives \<open>[]\<close>.\<close>

definition transcript :: "chat_history \<Rightarrow> string \<Rightarrow> message list" where
  "transcript h k = (case map_of h k of Some ms \<Rightarrow> ms | None \<Rightarrow> [])"

text \<open>\<open>sections.find(s => s.id === v)\<close>; \<open>undefined\<close> is \<open>None\<close>.\<close>

definition find_section :: "jsval \<Rightarrow> sect option" where
  "find_section v = find (\<lambda>s. Str (sec_id s) = v) sections"

subsection \<open>Strings\<close>

text \<open>
  The white space and line terminators of ECMAScript, each as the bytes of its UTF-8
  encoding: U+0009 to U+000D, U+0020, U+00A0, U+1680, U+2000 to U+200A, U+2028, U+2029,
  U+202F, U+205F, U+3000 and U+FEFF. \<open>String.prototype.trim\<close> removes them at both
  ends.
\<close>

definition white_space :: "string list" where
  "white_space =
    [[CHR 0x09], [CHR 0x0A], [CHR 0x0B], [CHR 0x0C], [CHR 0x0D], [CHR 0x20],
     [CHR 0xC2, CHR 0xA0],
     [CHR 0xE1, CHR 0x9A, CHR 0x80],
     [CHR 0xE2, CHR 0x80, CHR 0x80], [CHR 0xE2, CHR 0x80, CHR 0x81],
     [CHR 0xE2, CHR 0x80, CHR 0x82], [CHR 0xE2, CHR 0x80, CHR 0x83],
     [CHR 0xE2, CHR 0x80, CHR 0x84], [CHR 0xE2, CHR 0x80, CHR 0x85],
     [CHR 0xE2, CHR 0x80, CHR 0x86], [CHR 0xE2, CHR 0x80, CHR 0x87],
     [CHR 0xE2, CHR 0x80, CHR 0x88], [CHR 0xE2, CHR 0x80, CHR 0x89],
     [CHR 0xE2, CHR 0x80, CHR 0x8A],
     [CHR 0xE2, CHR 0x80, CHR 0xA8], [CHR 0xE2, CHR 0x80, CHR 0xA9],
     [CHR 0xE2, CHR 0x80, CHR 0xAF],
     [CHR 0xE2, CHR 0x81, CHR 0x9F],
     [CHR 0xE3, CHR 0x80, CHR 0x80],
     [CHR 0xEF, CHR 0xBB, CHR 0xBF]]"

text \<open>The length of the sequence of \<open>seqs\<close> that \<open>s\<close> starts with, \<open>0\<close> when there is
  none; and \<open>s\<close> without every such sequence at its start.\<close>

definition leading :: "string list \<Rightarrow> string \<Rightarrow> nat" where
  "leading seqs s =
    (case find (\<lambda>w. w \<noteq> [] \<and> prefix w s) seqs of Some w \<Rightarrow> length w | None \<Rightarrow> 0)"

function strip :: "string list \<Rightarrow> string \<Rightarrow> string" where
  "strip seqs s = (if leading seqs s = 0 then s else strip seqs (drop (leading seqs s) s))"
  by pat_completeness auto
termination
proof (relation "measure (\<lambda>(seqs, s). length s)")
  show "wf (measure (\<lambda>(seqs, s). length s))" by simp
next
  fix seqs :: "string list" and s :: string
  assume "leading seqs s \<noteq> 0"
  then have "s \<noteq> []"
    by (auto simp: leading_def find_Some_iff split: option.splits)
  with \<open>leading seqs s \<noteq> 0\<close>
  show "((seqs, drop (leading seqs s) s), (seqs, s)) \<in> measure (\<lambda>(seqs, s). length s)"
    by simp
qed

declare strip.simps [simp del]

text \<open>At the end of the text the same sequences are matched backwards.\<close>

definition trim :: "string \<Rightarrow> string" where
  "trim s = rev (strip (map rev white_space) (rev (strip white_space s)))"

definition lower_char :: "char \<Rightarrow> char" where
  "lower_char c =
    (let n = (of_char c :: nat) in if 65 \<le> n \<and> n \<le> 90 then char_of (n + 32) else c)"

definition toLowerCase :: "string \<Rightarrow> string" where
  "toLowerCase s = map lower_char s"

text \<open>\<open>Array.prototype.join\<close> on an array of strings.\<close>

fun join :: "string \<Rightarrow> string list \<Rightarrow> string" where
  "join sep [] = ''''"
| "join sep [x] = x"
| "join sep (x # y # ys) = x @ sep @ join sep (y # ys)"

subsection \<open>Handlers\<close>

definition handleSectionSelect :: "sect \<Rightarrow> app_state \<Rightarrow> app_state" where
  "handleSectionSelect sec s =
    s\<lparr>currentSection := Some sec, prompt := '''', result := None, error := None\<rparr>"

definition handleBackToSections :: "app_state \<Rightarrow> app_state" where
  "handleBackToSections s =
    s\<lparr>currentSection := None, prompt := '''', result := None, error := None\<rparr>"

text \<open>\<open>clearChat\<close>. The timer that removes the toast two seconds later is the event
  \<open>toast_timeout\<close>.\<close>

definition clearChat :: "app_state \<Rightarrow> app_state" where
  "clearChat s =
    (let s1 = (case currentSection s of
                 Some sec \<Rightarrow> s\<lparr>chatHistory := spread_set (sec_id sec) [] (chatHistory s)\<rparr>
               | None \<Rightarrow> s)
     in s1\<lparr>result := None, toast := Some ''Chat cleared''\<rparr>)"

definition toast_timeout :: "app_state \<Rightarrow> app_state" where
  "toast_timeout s = s\<lparr>toast := None\<rparr>"

definition tryExample :: "string \<Rightarrow> app_state \<Rightarrow> app_state" where
  "tryExample examplePrompt s = s\<lparr>prompt := examplePrompt\<rparr>"

subsection \<open>Submitting a query\<close>

text \<open>
  \<open>handleSubmit\<close> is an \<open>async\<close> function: it runs up to \<open>await fetch(...)\<close>, and
  resumes when the remote call has settled. The model has one function for each half.
  What the closure keeps across the \<open>await\<close> is a \<open>pending\<close> record: the
  \<open>currentSection\<close> of the render the handler comes from, \<open>currentPrompt\<close> and
  \<open>userMessage\<close>. The body sent is \<open>{prompt: currentPrompt, current_section:
  currentSection.id}\<close>.
\<close>

record pending =
  p_section :: sect
  p_prompt :: string
  p_userMessage :: message

record api_request =
  req_prompt :: string
  req_current_section :: string

definition request_of :: "pending \<Rightarrow> api_request" where
  "request_of p = \<lparr>req_prompt = p_prompt p, req_current_section = sec_id (p_section p)\<rparr>"

definition connect_error :: string where
  "connect_error = ''Failed to connect to the server. Make sure the backend is running!''"

text \<open>The four characters that end the toast of a redirect, as the bytes of the source
  file.\<close>

definition rocket :: string where
  "rocket = [CHR 0xC3, CHR 0xB0, CHR 0xC5, CHR 0xB8, CHR 0xC5, CHR 0xA1, CHR 0xE2, CHR 0x82, CHR 0xAC]"

text \<open>
  Lines 150 to 171. The second component is \<open>None\<close> when the handler returned at
  \<open>if (!prompt.trim()) return\<close>, and holds the request in flight otherwise. The
  argument \<open>now\<close> is \<open>new Date().toISOString()\<close>. Without a section,
  \<open>currentSection.id\<close> throws; the page with the form is rendered only with a section
  selected.
\<close>

definition handleSubmit_begin ::
  "string \<Rightarrow> app_state \<Rightarrow> js_error + (app_state \<times> pending option)" where
  "handleSubmit_begin now s =
    (if trim (prompt s) = [] then Inr (s, None)
     else case currentSection s of
       None \<Rightarrow> Inl TypeError
     | Some sec \<Rightarrow>
        (let currentPrompt = prompt s;
             userMessage = \<lparr>role = ''user'', content = Str currentPrompt, timestamp = now\<rparr>;
             s1 = s\<lparr>isLoading := True, isTyping := True, error := None, prompt := [],
                    chatHistory := spread_set (sec_id sec)
                      (transcript (chatHistory s) (sec_id sec) @ [userMessage]) (chatHistory s)\<rparr>
         in Inr (s1, Some \<lparr>p_section = sec, p_prompt = currentPrompt,
                            p_userMessage = userMessage\<rparr>)))"

text \<open>The \<open>catch\<close> block followed by \<open>finally\<close>, and \<open>finally\<close> alone.\<close>

definition catch_finally :: "app_state \<Rightarrow> app_state" where
  "catch_finally s = s\<lparr>error := Some connect_error, isLoading := False, isTyping := False\<rparr>"

definition finally_block :: "app_state \<Rightarrow> app_state" where
  "finally_block s = s\<lparr>isLoading := False, isTyping := False\<rparr>"

text \<open>
  Lines 173 to 217, from the settled call on. In the redirect branch
  \<open>setCurrentSection(newSection)\<close> comes first; when \<open>find\<close> gave \<open>undefined\<close> the
  template literal of the next line throws on \<open>newSection.name\<close>, before \<open>setToast\<close>,
  and the \<open>catch\<close> block takes over. Both branches append \<open>userMessage\<close> and
  \<open>aiMessage\<close> to what the transcript holds at that moment.
\<close>

definition handleSubmit_resume ::
  "string \<Rightarrow> fetch_outcome \<Rightarrow> pending \<Rightarrow> app_state \<Rightarrow> app_state" where
  "handleSubmit_resume now outcome p s =
    (case outcome of
       NetworkError \<Rightarrow> catch_finally s
     | HttpError \<Rightarrow> catch_finally s
     | InvalidJson \<Rightarrow> catch_finally s
     | Ok data \<Rightarrow>
        (if redirect data then
           (let previousSection = p_section p in
            case find_section (section data) of
              None \<Rightarrow> catch_finally (s\<lparr>currentSection := None\<rparr>)
            | Some newSection \<Rightarrow>
               (let aiMessage = \<lparr>role = ''assistant'', content = response data, timestamp = now\<rparr>
                in finally_block (s\<lparr>currentSection := Some newSection,
                     toast := Some (''Switched from '' @ name previousSection @ '' to ''
                                    @ name newSection @ '' section '' @ rocket),
                     chatHistory := spread_set (sec_id newSection)
                       (transcript (chatHistory s) (sec_id newSection)
                          @ [p_userMessage p, aiMessage]) (chatHistory s),
                     result := Some data\<rparr>)))
         else
           (let aiMessage = \<lparr>role = ''assistant'', content = response data, timestamp = now\<rparr>
            in finally_block (s\<lparr>chatHistory := spread_set (sec_id (p_section p))
                     (transcript (chatHistory s) (sec_id (p_section p))
                        @ [p_userMessage p, aiMessage]) (chatHistory s),
                   result := Some data\<rparr>))))"

text \<open>One whole call with nothing else happening while the request is in flight:
  \<open>t1\<close> and \<open>t2\<close> are the clock readings of the two halves.\<close>

definition handleSubmit ::
  "string \<Rightarrow> string \<Rightarrow> fetch_outcome \<Rightarrow> app_state \<Rightarrow> js_error + app_state" where
  "handleSubmit t1 t2 outcome s =
    (case handleSubmit_begin t1 s of
       Inl e \<Rightarrow> Inl e
     | Inr (s1, None) \<Rightarrow> Inr s1
     | Inr (s1, Some p) \<Rightarrow> Inr (handleSubmit_resume t2 outcome p s1))"

text \<open>The textarea's \<open>onChange\<close>.\<close>

definition onChange :: "string \<Rightarrow> app_state \<Rightarrow> app_state" where
  "onChange v s = s\<lparr>prompt := v\<rparr>"

text \<open>The \<open>disabled\<close> attribute of the submit button (line 388).\<close>

definition submit_disabled :: "app_state \<Rightarrow> bool" where
  "submit_disabled s = (isLoading s \<or> trim (prompt s) = [])"

text \<open>A run of submissions: the user types a query, submits it, and the call settles.\<close>

record submission =
  typed :: string
  t_asked :: string
  t_answered :: string
  outcome_of :: fetch_outcome

fun submit_all :: "submission list \<Rightarrow> app_state \<Rightarrow> js_error + app_state" where
  "submit_all [] s = Inr s"
| "submit_all (x # xs) s =
    (case handleSubmit (t_asked x) (t_answered x) (outcome_of x) (onChange (typed x) s) of
       Inl e \<Rightarrow> Inl e
     | Inr s1 \<Rightarrow> submit_all xs s1)"

subsection \<open>Effects: loading and saving\<close>

text \<open>Lines 40 to 45: \<open>sections.forEach\<close> copies the entries of the known sections.\<close>

definition filteredHistory :: "chat_history \<Rightarrow> chat_history" where
  "filteredHistory parsedHistory =
    foldl (\<lambda>fh sec. case map_of parsedHistory (sec_id sec) of
                       Some ms \<Rightarrow> spread_set (sec_id sec) ms fh
                     | None \<Rightarrow> fh) [] sections"

text \<open>The effect that runs once on mount (lines 29 to 48). A missing item and the
  empty string are both falsy.\<close>

definition load_effect :: "local_storage \<Rightarrow> app_state \<Rightarrow> app_state" where
  "load_effect ls s =
    (let s1 = (case ls_currentSection ls of
                 None \<Rightarrow> s
               | Some savedSection \<Rightarrow>
                   if savedSection = [] then s
                   else (case find_section (Str savedSection) of
                           Some sec \<Rightarrow> s\<lparr>currentSection := Some sec\<rparr>
                         | None \<Rightarrow> s))
     in case ls_chatHistory ls of
          None \<Rightarrow> s1
        | Some parsedHistory \<Rightarrow> s1\<lparr>chatHistory := filteredHistory parsedHistory\<rparr>)"

text \<open>The bodies of the two saving effects (lines 51 to 60).\<close>

definition save_section_effect :: "app_state \<Rightarrow> local_storage \<Rightarrow> local_storage" where
  "save_section_effect s ls =
    (case currentSection s of
       Some sec \<Rightarrow> ls\<lparr>ls_currentSection := Some (sec_id sec)\<rparr>
     | None \<Rightarrow> ls)"

definition save_chat_effect :: "app_state \<Rightarrow> local_storage \<Rightarrow> local_storage" where
  "save_chat_effect s ls = ls\<lparr>ls_chatHistory := Some (chatHistory s)\<rparr>"

text \<open>
  What React does to the storage after the render that follows a handler: each saving
  effect runs when its dependency differs from the one of the previous render
  \<open>prev\<close>. React compares with \<open>Object.is\<close>; the model compares the values.
\<close>

definition run_effects :: "app_state \<Rightarrow> app_state \<Rightarrow> local_storage \<Rightarrow> local_storage" where
  "run_effects prev s ls =
    (let ls1 = (if currentSection s \<noteq> currentSection prev then save_section_effect s ls else ls)
     in if chatHistory s \<noteq> chatHistory prev then save_chat_effect s ls1 else ls1)"

subsection \<open>Handlers, renders and effects in time\<close>

text \<open>
  A handler calls setters and returns; the only calls of \<open>localStorage.setItem\<close> are
  in the two saving effects. So the page is modelled by the state the setters have
  produced (\<open>app\<close>), the state of the last render whose effects have run
  (\<open>rendered\<close>), and the storage. \<open>act f\<close> is a handler (or one half of
  \<open>handleSubmit\<close>) with effect \<open>f\<close> on the state, up to its return; \<open>commit\<close> is
  the render that follows and the effects React runs after it.
\<close>

record browser =
  app :: app_state
  rendered :: app_state
  storage :: local_storage

definition act :: "(app_state \<Rightarrow> app_state) \<Rightarrow> browser \<Rightarrow> browser" where
  "act f w = w\<lparr>app := f (app w)\<rparr>"

definition commit :: "browser \<Rightarrow> browser" where
  "commit w = w\<lparr>rendered := app w, storage := run_effects (rendered w) (app w) (storage w)\<rparr>"

text \<open>
  Mounting the component: the first render shows the initial state, then the three
  effects run in the order of the source (load, save section, save chat history), then
  the state the load effect has set is rendered and the saving effects run again.
\<close>

definition mount :: "local_storage \<Rightarrow> browser" where
  "mount ls =
    (let s0 = initial_state;
         s1 = load_effect ls s0;
         ls1 = save_chat_effect s0 (save_section_effect s0 ls)
     in commit \<lparr>app = s1, rendered = s0, storage = ls1\<rparr>)"

text \<open>The storage holds the transcripts of the state; the storage holds the id of the
  selected section, when one is selected.\<close>

definition chat_saved :: "browser \<Rightarrow> bool" where
  "chat_saved w = (ls_chatHistory (storage w) = Some (chatHistory (app w)))"

definition section_saved :: "browser \<Rightarrow> bool" where
  "section_saved w =
    (case currentSection (app w) of
       Some sec \<Rightarrow> ls_currentSection (storage w) = Some (sec_id sec)
     | None \<Rightarrow> True)"

subsection \<open>Export\<close>

text \<open>
  \<open>exportAsTXT\<close>. \<open>toLocaleString\<close> stands for
  \<open>ts => new Date(ts).toLocaleString()\<close>, which depends on the locale and the time
  zone of the browser. The function returns the file it offers for download, if any.
\<close>

definition export_line :: "(string \<Rightarrow> string) \<Rightarrow> message \<Rightarrow> string" where
  "export_line toLocaleString msg =
    ''['' @ toLocaleString (timestamp msg) @ ''] ''
      @ (if role msg = ''user'' then ''You'' else ''AI'') @ '': '' @ to_string (content msg)"

definition blank_line :: string where
  "blank_line = [CHR 0x0A, CHR 0x0A]"

record download =
  filename :: string
  body :: string

definition exportAsTXT ::
  "(string \<Rightarrow> string) \<Rightarrow> app_state \<Rightarrow> download option \<times> app_state" where
  "exportAsTXT toLocaleString s =
    (case currentSection s of
       None \<Rightarrow> (None, s)
     | Some sec \<Rightarrow>
        (let sectionHistory = transcript (chatHistory s) (sec_id sec);
             content = join blank_line (map (export_line toLocaleString) sectionHistory)
         in (Some \<lparr>filename = toLowerCase (name sec) @ ''-chat-history.txt'', body = content\<rparr>,
             s\<lparr>toast := Some ''Exported as TXT''\<rparr>)))"

subsection \<open>What is rendered\<close>

text \<open>
  Lines 284 to 420, as far as the state decides what is on the page: without a section
  the component returns the grid of sections and nothing else; with one, the page of
  that section with its transcript, the submit button, and the error and toast boxes.
\<close>

record chat_page =
  heading :: string
  shown_messages :: "message list"
  button_disabled :: bool
  error_box :: "string option"
  toast_box :: "string option"

datatype view = SectionPicker "sect list" | ChatPage chat_page

definition render :: "app_state \<Rightarrow> view" where
  "render s =
    (case currentSection s of
       None \<Rightarrow> SectionPicker sections
     | Some sec \<Rightarrow>
        ChatPage \<lparr>heading = name sec @ '' Assistant'',
                  shown_messages = transcript (chatHistory s) (sec_id sec),
                  button_disabled = submit_disabled s,
                  error_box = error s,
                  toast_box = toast s\<rparr>)"

fun shown_error :: "view \<Rightarrow> string option" where
  "shown_error (SectionPicker secs) = None"
| "shown_error (ChatPage pg) = error_box pg"

subsection \<open>Sample states\<close>

definition sample_message :: message where
  "sample_message =
    \<lparr>role = ''user'', content = Str ''Dune?'', timestamp = ''2024-01-01T10:00:00.000Z''\<rparr>"

definition sample_reply :: message where
  "sample_reply =
    \<lparr>role = ''assistant'', content = Str ''Yes.'', timestamp = ''2024-01-01T10:00:02.000Z''\<rparr>"

definition sample_history :: chat_history where
  "sample_history = [(''movies'', [sample_message, sample_reply]), (''general'', [sample_message])]"

definition sample_state :: app_state where
  "sample_state = initial_state\<lparr>currentSection := Some general, prompt := ''loan rates?'',
     chatHistory := sample_history\<rparr>"

definition sample_storage :: local_storage where
  "sample_storage = \<lparr>ls_currentSection = Some ''general'',
     ls_chatHistory = Some sample_history\<rparr>"

definition sample_browser :: browser where
  "sample_browser = \<lparr>app = sample_state, rendered = sample_state, storage = sample_storage\<rparr>"

section \<open>Properties\<close>

text \<open>
  The theorems about \<open>handleSubmit\<close> are about one whole call: the two halves of the
  handler with no other handler running while the request is in flight.
\<close>

subsection \<open>Dictionary lemmas\<close>

lemma map_of_spread_set: "map_of (spread_set k v h) = (map_of h)(k \<mapsto> v)"
  by (induction h) (auto simp: fun_eq_iff)

lemma transcript_spread_set:
  "transcript (spread_set k v h) k' = (if k' = k then v else transcript h k')"
  by (simp add: transcript_def map_of_spread_set)

lemma keys_spread_set:
  "map fst (spread_set k v h) = (if k \<in> fst ` set h then map fst h else map fst h @ [k])"
  by (induction h) auto

lemma section_ids:
  "sec_id ` set sections = {''health'', ''banking'', ''general'', ''movies'', ''music''}"
  by (simp add: sections_def health_def banking_def general_def movies_def music_def)

subsection \<open>Trimming the sample queries\<close>

lemma trim_loan_rates: "trim ''loan rates?'' \<noteq> []"
  by code_simp

lemma trim_again: "trim ''again'' \<noteq> []"
  by code_simp

lemma trim_mortgages: "trim ''and mortgages?'' \<noteq> []"
  by code_simp

lemma trim_thanks: "trim ''thanks'' \<noteq> []"
  by code_simp

lemma trim_no_break_space: "trim [CHR 0xC2, CHR 0xA0, CHR 0x20, CHR 0x0A] = []"
  by code_simp

lemmas trim_samples = trim_loan_rates trim_again trim_mortgages trim_thanks trim_no_break_space

subsection \<open>Clearing a section\<close>

text \<open>
  C8. With a section selected, \<open>clearChat\<close> leaves that section's key in the
  dictionary, bound to the empty sequence, and the binding of every other key is
  what it was before.
\<close>

theorem clearChat_local:
  assumes "currentSection s = Some sec"
  shows "map_of (chatHistory (clearChat s)) (sec_id sec) = Some []
       \<and> sec_id sec \<in> fst ` set (chatHistory (clearChat s))
       \<and> (\<forall>k. k \<noteq> sec_id sec \<longrightarrow>
             map_of (chatHistory (clearChat s)) k = map_of (chatHistory s) k)"
proof -
  have h: "chatHistory (clearChat s) = spread_set (sec_id sec) [] (chatHistory s)"
    using assms by (simp add: clearChat_def)
  have "map_of (chatHistory (clearChat s)) (sec_id sec) = Some []"
    by (simp add: h map_of_spread_set)
  moreover from this have "sec_id sec \<in> fst ` set (chatHistory (clearChat s))"
    by (metis map_of_eq_None_iff option.distinct(1))
  moreover have "\<forall>k. k \<noteq> sec_id sec \<longrightarrow>
      map_of (chatHistory (clearChat s)) k = map_of (chatHistory s) k"
    by (simp add: h map_of_spread_set)
  ultimately show ?thesis by blast
qed

theorem clearChat_local_witness:
  "currentSection (sample_state\<lparr>currentSection := Some movies\<rparr>) = Some movies
   \<and> map_of (chatHistory (clearChat (sample_state\<lparr>currentSection := Some movies\<rparr>))) ''movies''
       = Some []
   \<and> map_of (chatHistory (clearChat (sample_state\<lparr>currentSection := Some movies\<rparr>))) ''general''
       = Some [sample_message]"
  using clearChat_local [of "sample_state\<lparr>currentSection := Some movies\<rparr>" movies]
  by (simp add: sample_state_def sample_history_def movies_def initial_state_def)

subsection \<open>The first half of a submission\<close>

lemma begin_ok:
  assumes "currentSection s = Some sec" "trim (prompt s) \<noteq> []"
  shows "handleSubmit_begin now s =
    Inr (s\<lparr>isLoading := True, isTyping := True, error := None, prompt := [],
            chatHistory := spread_set (sec_id sec)
              (transcript (chatHistory s) (sec_id sec)
                 @ [\<lparr>role = ''user'', content = Str (prompt s), timestamp = now\<rparr>]) (chatHistory s)\<rparr>,
         Some \<lparr>p_section = sec, p_prompt = prompt s,
               p_userMessage = \<lparr>role = ''user'', content = Str (prompt s), timestamp = now\<rparr>\<rparr>)"
  using assms by (simp add: handleSubmit_begin_def Let_def)

lemma find_section_banking: "find_section (Str ''banking'') = Some banking"
  by (simp add: find_section_def sections_def health_def banking_def)

subsection \<open>Redirects\<close>

text \<open>
  C1. A query \<open>X\<close> submitted in section \<open>general\<close> and answered with
  \<open>{redirect: true, section: "banking", response: Y}\<close>: afterwards the transcript of
  \<open>banking\<close> is what it was, followed by the user message \<open>X\<close> and the assistant
  message \<open>Y\<close>; the transcript of \<open>general\<close> is what it was, followed by the user
  message \<open>X\<close> and nothing else; and the selected section is \<open>banking\<close>.
\<close>

theorem redirect_general_to_banking:
  assumes "currentSection s = Some sec" and "sec_id sec = ''general''"
    and "trim (prompt s) \<noteq> []"
  shows "\<exists>s'. handleSubmit t1 t2
            (Ok \<lparr>redirect = True, section = Str ''banking'', response = Str Y\<rparr>) s = Inr s'
     \<and> transcript (chatHistory s') ''banking''
         = transcript (chatHistory s) ''banking''
           @ [\<lparr>role = ''user'', content = Str (prompt s), timestamp = t1\<rparr>,
              \<lparr>role = ''assistant'', content = Str Y, timestamp = t2\<rparr>]
     \<and> transcript (chatHistory s') ''general''
         = transcript (chatHistory s) ''general''
           @ [\<lparr>role = ''user'', content = Str (prompt s), timestamp = t1\<rparr>]
     \<and> currentSection s' = Some banking"
  using assms
  by (simp add: Let_def handleSubmit_def begin_ok handleSubmit_resume_def find_section_banking
      finally_block_def transcript_spread_set banking_def)

theorem redirect_general_to_banking_witness:
  "currentSection sample_state = Some general \<and> sec_id general = ''general''
   \<and> trim (prompt sample_state) \<noteq> []
   \<and> (\<exists>s'. handleSubmit ''T1'' ''T2''
            (Ok \<lparr>redirect = True, section = Str ''banking'', response = Str ''Ask a bank.''\<rparr>)
            sample_state = Inr s'
     \<and> transcript (chatHistory s') ''banking''
         = [\<lparr>role = ''user'', content = Str ''loan rates?'', timestamp = ''T1''\<rparr>,
            \<lparr>role = ''assistant'', content = Str ''Ask a bank.'', timestamp = ''T2''\<rparr>]
     \<and> transcript (chatHistory s') ''general''
         = [sample_message, \<lparr>role = ''user'', content = Str ''loan rates?'', timestamp = ''T1''\<rparr>]
     \<and> currentSection s' = Some banking)"
proof -
  have a: "currentSection sample_state = Some general"
    by (simp add: sample_state_def initial_state_def)
  have b: "sec_id general = ''general''" by (simp add: general_def)
  have c: "trim (prompt sample_state) \<noteq> []"
    by (simp add: sample_state_def initial_state_def trim_samples)
  have d: "transcript (chatHistory sample_state) ''banking'' = []"
    by (simp add: sample_state_def initial_state_def sample_history_def transcript_def)
  have e: "transcript (chatHistory sample_state) ''general'' = [sample_message]"
    by (simp add: sample_state_def initial_state_def sample_history_def transcript_def)
  have f: "prompt sample_state = ''loan rates?''"
    by (simp add: sample_state_def initial_state_def)
  have g: "trim ''loan rates?'' \<noteq> []"
    by (simp add: trim_samples)
  from redirect_general_to_banking [OF a b c, of "''T1''" "''T2''" "''Ask a bank.''"]
  show ?thesis
    by (simp add: a b d e f g)
qed

subsection \<open>A redirect to an unknown section\<close>

text \<open>
  C10. A reply \<open>{redirect: true, section: "sports", response: "Y"}\<close> names a section
  that \<open>sections\<close> does not have. At the sample state the call ends in the \<open>catch\<close>
  block: no assistant message is appended, the user message is the last entry of the
  transcript of \<open>general\<close>, and no section is selected. The \<open>catch\<close> block has put the
  connection-failure text into the \<open>error\<close> state, as on every other failure; but
  \<open>setCurrentSection(undefined)\<close> has run before \<open>newSection.name\<close> threw, so the
  page rendered is the grid of sections and the error is not on it.
\<close>

theorem unknown_redirect_error_not_shown:
  "handleSubmit ''T1'' ''T2'' (Ok \<lparr>redirect = True, section = Str ''sports'', response = Str ''Y''\<rparr>)
     sample_state
   = Inr (sample_state\<lparr>currentSection := None, prompt := [], error := Some connect_error,
       chatHistory := [(''movies'', [sample_message, sample_reply]),
         (''general'', [sample_message,
            \<lparr>role = ''user'', content = Str ''loan rates?'', timestamp = ''T1''\<rparr>])]\<rparr>)
   \<and> shown_error (render (sample_state\<lparr>currentSection := None, prompt := [],
       error := Some connect_error,
       chatHistory := [(''movies'', [sample_message, sample_reply]),
         (''general'', [sample_message,
            \<lparr>role = ''user'', content = Str ''loan rates?'', timestamp = ''T1''\<rparr>])]\<rparr>)) = None
   \<and> render (sample_state\<lparr>currentSection := None, prompt := [],
       error := Some connect_error,
       chatHistory := [(''movies'', [sample_message, sample_reply]),
         (''general'', [sample_message,
            \<lparr>role = ''user'', content = Str ''loan rates?'', timestamp = ''T1''\<rparr>])]\<rparr>)
     = SectionPicker sections"
  by (simp add: Let_def handleSubmit_def handleSubmit_begin_def handleSubmit_resume_def catch_finally_def
      sample_state_def initial_state_def sample_history_def find_section_def sections_def
      health_def banking_def general_def movies_def music_def
      trim_samples transcript_def render_def)

subsection \<open>Rejected submissions\<close>

text \<open>
  C2 (amended). \<open>handleSubmit\<close> returns at once, with the state untouched and no request
  sent, when the query is empty after trimming. It does not read \<open>isLoading\<close>. What
  stops a submission while a request is pending is the page: once \<open>handleSubmit\<close> has
  sent a request, \<open>isLoading\<close> holds, and the page rendered from then on, whatever is
  typed into the textarea, has its submit button disabled.
\<close>

theorem submit_rejection:
  "(trim (prompt s) = [] \<longrightarrow> handleSubmit_begin now s = Inr (s, None))
   \<and> (\<forall>s1 p q. handleSubmit_begin now s = Inr (s1, Some p) \<longrightarrow>
         isLoading s1
         \<and> (\<exists>pg. render (onChange q s1) = ChatPage pg \<and> button_disabled pg))"
  by (auto simp: handleSubmit_begin_def Let_def render_def onChange_def submit_disabled_def
      split: if_splits option.splits)

theorem submit_rejection_witness:
  "trim (prompt (onChange [CHR 0xC2, CHR 0xA0, CHR 0x20, CHR 0x0A] sample_state)) = []
   \<and> handleSubmit_begin ''T1'' (onChange [CHR 0xC2, CHR 0xA0, CHR 0x20, CHR 0x0A] sample_state)
       = Inr (onChange [CHR 0xC2, CHR 0xA0, CHR 0x20, CHR 0x0A] sample_state, None)
   \<and> (\<exists>s1 p pg. handleSubmit_begin ''T1'' sample_state = Inr (s1, Some p)
         \<and> isLoading s1
         \<and> render (onChange ''again'' s1) = ChatPage pg \<and> button_disabled pg)"
proof -
  let ?blank = "onChange [CHR 0xC2, CHR 0xA0, CHR 0x20, CHR 0x0A] sample_state"
  have a: "trim (prompt ?blank) = []"
    by (simp add: onChange_def trim_samples)
  have b: "handleSubmit_begin ''T1'' ?blank = Inr (?blank, None)"
    using submit_rejection [of ?blank "''T1''"] a by blast
  have c: "currentSection sample_state = Some general"
    by (simp add: sample_state_def initial_state_def)
  have d: "trim (prompt sample_state) \<noteq> []"
    by (simp add: sample_state_def initial_state_def trim_samples)
  obtain s1 p where e: "handleSubmit_begin ''T1'' sample_state = Inr (s1, Some p)"
    using begin_ok [OF c d] by blast
  with submit_rejection [of sample_state "''T1''"]
  have "isLoading s1 \<and> (\<exists>pg. render (onChange ''again'' s1) = ChatPage pg \<and> button_disabled pg)"
    by blast
  with a b e show ?thesis by blast
qed

text \<open>The claim as it was stated has every call during a pending request rejected. At
  the sample state a first call sends its request and sets \<open>isLoading\<close>; a second
  query is typed and \<open>handleSubmit\<close> is called again before the first call has
  settled: it appends the second user message and sends a second request.\<close>

theorem handleSubmit_while_pending_counterexample:
  "handleSubmit_begin ''T1'' sample_state
     = Inr (sample_state\<lparr>isLoading := True, isTyping := True, prompt := [],
              chatHistory := [(''movies'', [sample_message, sample_reply]),
                (''general'', [sample_message,
                   \<lparr>role = ''user'', content = Str ''loan rates?'', timestamp = ''T1''\<rparr>])]\<rparr>,
            Some \<lparr>p_section = general, p_prompt = ''loan rates?'',
                  p_userMessage =
                    \<lparr>role = ''user'', content = Str ''loan rates?'', timestamp = ''T1''\<rparr>\<rparr>)
   \<and> handleSubmit_begin ''T2''
         (onChange ''again''
           (sample_state\<lparr>isLoading := True, isTyping := True, prompt := [],
              chatHistory := [(''movies'', [sample_message, sample_reply]),
                (''general'', [sample_message,
                   \<lparr>role = ''user'', content = Str ''loan rates?'', timestamp = ''T1''\<rparr>])]\<rparr>))
     = Inr (sample_state\<lparr>isLoading := True, isTyping := True, prompt := [],
              chatHistory := [(''movies'', [sample_message, sample_reply]),
                (''general'', [sample_message,
                   \<lparr>role = ''user'', content = Str ''loan rates?'', timestamp = ''T1''\<rparr>,
                   \<lparr>role = ''user'', content = Str ''again'', timestamp = ''T2''\<rparr>])]\<rparr>,
            Some \<lparr>p_section = general, p_prompt = ''again'',
                  p_userMessage =
                    \<lparr>role = ''user'', content = Str ''again'', timestamp = ''T2''\<rparr>\<rparr>)"
  by (simp add: Let_def handleSubmit_begin_def onChange_def sample_state_def initial_state_def
      sample_history_def trim_samples transcript_def general_def)

subsection \<open>Failed calls\<close>

text \<open>
  C3 (amended). When the remote call fails by a transport error, a status that is not
  2xx, or a body that is not JSON, the transcript of the section the query was
  submitted in is what it was followed by the user message \<open>X\<close>, which is its last
  entry; every other transcript is unchanged, so no assistant message was appended
  anywhere; \<open>isLoading\<close> is false again, the error text is set, and the submit button
  is enabled as soon as a query is typed.
\<close>

theorem failed_call_keeps_user_message:
  assumes "currentSection s = Some sec" and "trim (prompt s) \<noteq> []"
    and "outcome \<in> {NetworkError, HttpError, InvalidJson}"
  shows "\<exists>s'. handleSubmit t1 t2 outcome s = Inr s'
     \<and> (\<forall>k. transcript (chatHistory s') k
           = (if k = sec_id sec
              then transcript (chatHistory s) k
                   @ [\<lparr>role = ''user'', content = Str (prompt s), timestamp = t1\<rparr>]
              else transcript (chatHistory s) k))
     \<and> last (transcript (chatHistory s') (sec_id sec))
         = \<lparr>role = ''user'', content = Str (prompt s), timestamp = t1\<rparr>
     \<and> \<not> isLoading s' \<and> error s' = Some connect_error
     \<and> (\<forall>q. trim q \<noteq> [] \<longrightarrow> \<not> submit_disabled (onChange q s'))"
proof -
  have r: "handleSubmit_resume t2 outcome p s1 = catch_finally s1" for p s1
    using assms(3) by (auto simp: handleSubmit_resume_def)
  show ?thesis
    using assms(1,2)
    by (simp add: handleSubmit_def begin_ok r catch_finally_def transcript_spread_set
        submit_disabled_def onChange_def)
qed

theorem failed_call_keeps_user_message_witness:
  "currentSection sample_state = Some general \<and> trim (prompt sample_state) \<noteq> []
   \<and> (\<exists>s'. handleSubmit ''T1'' ''T2'' HttpError sample_state = Inr s'
        \<and> transcript (chatHistory s') ''general''
            = [sample_message, \<lparr>role = ''user'', content = Str ''loan rates?'', timestamp = ''T1''\<rparr>]
        \<and> transcript (chatHistory s') ''movies'' = [sample_message, sample_reply]
        \<and> \<not> isLoading s' \<and> error s' = Some connect_error
        \<and> trim ''again'' \<noteq> [] \<and> \<not> submit_disabled (onChange ''again'' s'))"
proof -
  have a: "currentSection sample_state = Some general"
    by (simp add: sample_state_def initial_state_def)
  have c: "trim (prompt sample_state) \<noteq> []"
    by (simp add: sample_state_def initial_state_def trim_samples)
  have d: "transcript (chatHistory sample_state) ''movies'' = [sample_message, sample_reply]"
    by (simp add: sample_state_def initial_state_def sample_history_def transcript_def)
  have e: "transcript (chatHistory sample_state) ''general'' = [sample_message]"
    by (simp add: sample_state_def initial_state_def sample_history_def transcript_def)
  have f: "prompt sample_state = ''loan rates?''"
    by (simp add: sample_state_def initial_state_def)
  have g: "sec_id general = ''general''" by (simp add: general_def)
  from failed_call_keeps_user_message [OF a c, of HttpError "''T1''" "''T2''"]
  obtain s' where h: "handleSubmit ''T1'' ''T2'' HttpError sample_state = Inr s'"
    and t: "\<forall>k. transcript (chatHistory s') k
           = (if k = sec_id general
              then transcript (chatHistory sample_state) k
                   @ [\<lparr>role = ''user'', content = Str (prompt sample_state), timestamp = ''T1''\<rparr>]
              else transcript (chatHistory sample_state) k)"
    and l: "\<not> isLoading s'" "error s' = Some connect_error"
    and q: "\<forall>q. trim q \<noteq> [] \<longrightarrow> \<not> submit_disabled (onChange q s')"
    by auto
  have r: "trim ''again'' \<noteq> []" by (simp add: trim_samples)
  with q have n: "\<not> submit_disabled (onChange ''again'' s')" by blast
  have "transcript (chatHistory s') ''general''
      = [sample_message, \<lparr>role = ''user'', content = Str ''loan rates?'', timestamp = ''T1''\<rparr>]"
    using t [rule_format, of "''general''"] by (simp add: g e f)
  moreover have "transcript (chatHistory s') ''movies'' = [sample_message, sample_reply]"
    using t [rule_format, of "''movies''"] by (simp add: g d)
  ultimately show ?thesis using a c h l r n by simp
qed

text \<open>The claim as it was stated counts a malformed payload among the failures. A reply
  with status 2xx whose JSON object has no \<open>response\<close> field (\<open>{}\<close>) is not treated
  as one: the \<open>else\<close> branch appends the user message once more and an assistant
  message whose content is \<open>undefined\<close>.\<close>

theorem missing_response_counterexample:
  "handleSubmit ''T1'' ''T2'' (Ok \<lparr>redirect = False, section = Undefined, response = Undefined\<rparr>)
     sample_state
   = Inr (sample_state\<lparr>prompt := [],
       result := Some \<lparr>redirect = False, section = Undefined, response = Undefined\<rparr>,
       chatHistory := [(''movies'', [sample_message, sample_reply]),
         (''general'', [sample_message,
            \<lparr>role = ''user'', content = Str ''loan rates?'', timestamp = ''T1''\<rparr>,
            \<lparr>role = ''user'', content = Str ''loan rates?'', timestamp = ''T1''\<rparr>,
            \<lparr>role = ''assistant'', content = Undefined, timestamp = ''T2''\<rparr>])]\<rparr>)"
  by (simp add: Let_def handleSubmit_def handleSubmit_begin_def handleSubmit_resume_def finally_block_def
      sample_state_def initial_state_def sample_history_def
      trim_samples transcript_def general_def)

subsection \<open>Transcripts only grow under submissions\<close>

lemma begin_prefix:
  assumes "handleSubmit_begin now s = Inr (s1, p)"
  shows "prefix (transcript (chatHistory s) k) (transcript (chatHistory s1) k)"
  using assms
  by (auto simp: handleSubmit_begin_def Let_def transcript_spread_set
      split: if_splits option.splits)

lemma resume_prefix:
  "prefix (transcript (chatHistory s) k) (transcript (chatHistory (handleSubmit_resume now out p s)) k)"
  by (cases out)
    (auto simp: handleSubmit_resume_def Let_def catch_finally_def finally_block_def
      transcript_spread_set split: option.splits)

lemma handleSubmit_prefix:
  assumes "handleSubmit t1 t2 out s = Inr s'"
  shows "prefix (transcript (chatHistory s) k) (transcript (chatHistory s') k)"
proof (cases "handleSubmit_begin t1 s")
  case (Inl e)
  with assms show ?thesis by (simp add: handleSubmit_def)
next
  case (Inr r)
  obtain s1 p where r: "r = (s1, p)" by (cases r)
  have b: "prefix (transcript (chatHistory s) k) (transcript (chatHistory s1) k)"
    using begin_prefix Inr r by blast
  show ?thesis
  proof (cases p)
    case None
    with assms Inr r b show ?thesis by (simp add: handleSubmit_def)
  next
    case (Some pd)
    with assms Inr r have "s' = handleSubmit_resume t2 out pd s1"
      by (simp add: handleSubmit_def)
    with b resume_prefix [of s1 k t2 out pd] show ?thesis
      using prefix_order.trans by blast
  qed
qed

lemma submit_all_prefix:
  "submit_all xs s = Inr s' \<Longrightarrow>
     prefix (transcript (chatHistory s) k) (transcript (chatHistory s') k)"
proof (induction xs arbitrary: s)
  case Nil
  then show ?case by simp
next
  case (Cons x xs)
  from Cons.prems obtain s1 where
    h: "handleSubmit (t_asked x) (t_answered x) (outcome_of x) (onChange (typed x) s) = Inr s1"
    and r: "submit_all xs s1 = Inr s'"
    by (auto split: sum.splits)
  have "prefix (transcript (chatHistory (onChange (typed x) s)) k) (transcript (chatHistory s1) k)"
    using handleSubmit_prefix [OF h] .
  then have "prefix (transcript (chatHistory s) k) (transcript (chatHistory s1) k)"
    by (simp add: onChange_def)
  with Cons.IH [OF r] show ?case using prefix_order.trans by blast
qed

text \<open>
  C5. Over any run of submissions, whatever their outcomes, the transcript of every
  section before the run is a prefix of its transcript after the run: its length does
  not decrease, and every message that was there is still at the same position with
  the same role, content and timestamp.
\<close>

theorem submit_all_append_only:
  assumes "submit_all xs s = Inr s'"
  shows "prefix (transcript (chatHistory s) k) (transcript (chatHistory s') k)
       \<and> length (transcript (chatHistory s) k) \<le> length (transcript (chatHistory s') k)
       \<and> (\<forall>i < length (transcript (chatHistory s) k).
             transcript (chatHistory s') k ! i = transcript (chatHistory s) k ! i)"
proof -
  have p: "prefix (transcript (chatHistory s) k) (transcript (chatHistory s') k)"
    using submit_all_prefix [OF assms] .
  then obtain zs where "transcript (chatHistory s') k = transcript (chatHistory s) k @ zs"
    by (auto simp: prefix_def)
  then show ?thesis using p by (simp add: nth_append)
qed

theorem submit_all_append_only_witness:
  "\<exists>s'. submit_all
          [\<lparr>typed = ''and mortgages?'', t_asked = ''T3'', t_answered = ''T4'',
            outcome_of = Ok \<lparr>redirect = True, section = Str ''banking'', response = Str ''Ask a bank.''\<rparr>\<rparr>,
           \<lparr>typed = ''thanks'', t_asked = ''T5'', t_answered = ''T6'', outcome_of = HttpError\<rparr>]
          sample_state = Inr s'
     \<and> prefix [sample_message] (transcript (chatHistory s') ''general'')
     \<and> 1 \<le> length (transcript (chatHistory s') ''general'')
     \<and> transcript (chatHistory s') ''general'' ! 0 = sample_message"
proof -
  let ?xs = "[\<lparr>typed = ''and mortgages?'', t_asked = ''T3'', t_answered = ''T4'',
            outcome_of = Ok \<lparr>redirect = True, section = Str ''banking'', response = Str ''Ask a bank.''\<rparr>\<rparr>,
           \<lparr>typed = ''thanks'', t_asked = ''T5'', t_answered = ''T6'', outcome_of = HttpError\<rparr>]"
  have "\<exists>s'. submit_all ?xs sample_state = Inr s'"
    by (simp add: Let_def handleSubmit_def handleSubmit_begin_def onChange_def
        sample_state_def initial_state_def trim_samples
        handleSubmit_resume_def find_section_def sections_def health_def banking_def
        finally_block_def)
  then obtain s' where h: "submit_all ?xs sample_state = Inr s'" ..
  have e: "transcript (chatHistory sample_state) ''general'' = [sample_message]"
    by (simp add: sample_state_def initial_state_def sample_history_def transcript_def)
  from submit_all_append_only [OF h, of "''general''"] h show ?thesis
    by (simp add: e)
qed

subsection \<open>Loading\<close>

lemma map_of_copy_known:
  "map_of (foldl (\<lambda>fh sec. case map_of parsed (sec_id sec) of
                       Some ms \<Rightarrow> spread_set (sec_id sec) ms fh
                     | None \<Rightarrow> fh) acc secs) k
   = (if k \<in> sec_id ` set secs \<and> map_of parsed k \<noteq> None then map_of parsed k else map_of acc k)"
proof (induction secs arbitrary: acc)
  case Nil
  then show ?case by simp
next
  case (Cons sec secs)
  show ?case
    by (cases "map_of parsed (sec_id sec)") (auto simp: Cons.IH map_of_spread_set)
qed

lemma map_of_filteredHistory:
  "map_of (filteredHistory parsed) k = (if k \<in> sec_id ` set sections then map_of parsed k else None)"
  unfolding filteredHistory_def by (subst map_of_copy_known) auto

lemma chatHistory_load:
  "ls_chatHistory ls = Some parsed \<Longrightarrow> chatHistory (load_effect ls s) = filteredHistory parsed"
  by (simp add: load_effect_def Let_def split: option.splits)

text \<open>
  C7. When the storage holds a saved mapping, the chat history after the load effect
  binds a key exactly when the key is the id of a section of \<open>sections\<close> and the
  saved mapping binds it, to the same messages. So the entry of any other key is gone,
  its transcript is empty, and the transcript of a known section is the saved one.
\<close>

theorem load_filters:
  assumes "ls_chatHistory ls = Some parsedHistory"
  shows "map_of (chatHistory (load_effect ls s)) k
           = (if k \<in> sec_id ` set sections then map_of parsedHistory k else None)
       \<and> (k \<notin> sec_id ` set sections \<longrightarrow>
            k \<notin> fst ` set (chatHistory (load_effect ls s))
            \<and> transcript (chatHistory (load_effect ls s)) k = [])
       \<and> (k \<in> sec_id ` set sections \<longrightarrow>
            transcript (chatHistory (load_effect ls s)) k = transcript parsedHistory k)"
proof -
  have m: "map_of (chatHistory (load_effect ls s)) k
           = (if k \<in> sec_id ` set sections then map_of parsedHistory k else None)"
    by (simp add: chatHistory_load [OF assms] map_of_filteredHistory)
  have "k \<notin> sec_id ` set sections \<Longrightarrow> k \<notin> fst ` set (chatHistory (load_effect ls s))"
    using m by (simp add: map_of_eq_None_iff)
  with m show ?thesis by (simp add: transcript_def)
qed

theorem load_filters_witness:
  "ls_chatHistory (sample_storage\<lparr>ls_chatHistory :=
       Some ((''sports'', [sample_reply]) # sample_history)\<rparr>)
     = Some ((''sports'', [sample_reply]) # sample_history)
   \<and> ''sports'' \<notin> sec_id ` set sections \<and> ''movies'' \<in> sec_id ` set sections
   \<and> map_of (chatHistory (load_effect (sample_storage\<lparr>ls_chatHistory :=
       Some ((''sports'', [sample_reply]) # sample_history)\<rparr>) initial_state)) ''sports'' = None
   \<and> transcript (chatHistory (load_effect (sample_storage\<lparr>ls_chatHistory :=
       Some ((''sports'', [sample_reply]) # sample_history)\<rparr>) initial_state)) ''sports'' = []
   \<and> transcript (chatHistory (load_effect (sample_storage\<lparr>ls_chatHistory :=
       Some ((''sports'', [sample_reply]) # sample_history)\<rparr>) initial_state)) ''movies''
       = [sample_message, sample_reply]"
proof -
  let ?ls = "sample_storage\<lparr>ls_chatHistory := Some ((''sports'', [sample_reply]) # sample_history)\<rparr>"
  have a: "ls_chatHistory ?ls = Some ((''sports'', [sample_reply]) # sample_history)" by simp
  have b: "''sports'' \<notin> sec_id ` set sections" "''movies'' \<in> sec_id ` set sections"
    by (simp_all add: section_ids)
  have c: "transcript ((''sports'', [sample_reply]) # sample_history) ''movies''
      = [sample_message, sample_reply]"
    by (simp add: transcript_def sample_history_def)
  from load_filters [OF a, of initial_state "''sports''"]
       load_filters [OF a, of initial_state "''movies''"]
  show ?thesis using b c by simp
qed

subsection \<open>Export\<close>

text \<open>Appending a message to a transcript that is not empty appends a blank line and
  one block to the document.\<close>

lemma join_snoc:
  "join sep (xs @ [x]) = (if xs = [] then x else join sep xs @ sep @ x)"
  by (induction sep xs rule: join.induct) auto

text \<open>
  C9. With a section selected, \<open>exportAsTXT\<close> offers a document that is the blocks
  \<open>[formatted timestamp] You|AI: content\<close> of the messages of that section's
  transcript, in order, joined by a blank line. The export leaves the chat history and
  the selected section as they were, a second export gives the same document, and any
  state whose selected section has the same transcript gives the same text.
\<close>

theorem exportAsTXT_document:
  assumes "currentSection s = Some sec"
  shows "\<exists>d s'. exportAsTXT toLocaleString s = (Some d, s')
     \<and> body d = join [CHR 0x0A, CHR 0x0A]
          (map (\<lambda>msg. ''['' @ toLocaleString (timestamp msg) @ ''] ''
                   @ (if role msg = ''user'' then ''You'' else ''AI'') @ '': ''
                   @ to_string (content msg))
             (transcript (chatHistory s) (sec_id sec)))
     \<and> chatHistory s' = chatHistory s
     \<and> currentSection s' = currentSection s
     \<and> fst (exportAsTXT toLocaleString s') = Some d
     \<and> (\<forall>s2 sec2 d2.
           currentSection s2 = Some sec2
           \<and> transcript (chatHistory s2) (sec_id sec2) = transcript (chatHistory s) (sec_id sec)
           \<and> fst (exportAsTXT toLocaleString s2) = Some d2
           \<longrightarrow> body d2 = body d)"
proof -
  have l: "export_line toLocaleString = (\<lambda>msg. ''['' @ toLocaleString (timestamp msg) @ ''] ''
                   @ (if role msg = ''user'' then ''You'' else ''AI'') @ '': ''
                   @ to_string (content msg))"
    by (rule ext) (simp add: export_line_def)
  show ?thesis
    using assms
    by (auto simp: exportAsTXT_def Let_def blank_line_def l)
qed

theorem exportAsTXT_document_witness:
  "currentSection (handleSectionSelect movies sample_state) = Some movies
   \<and> (\<exists>d s'. exportAsTXT (\<lambda>ts. ts) (handleSectionSelect movies sample_state) = (Some d, s')
        \<and> body d = ''[2024-01-01T10:00:00.000Z] You: Dune?'' @ [CHR 0x0A, CHR 0x0A]
                    @ ''[2024-01-01T10:00:02.000Z] AI: Yes.''
        \<and> chatHistory s' = sample_history
        \<and> fst (exportAsTXT (\<lambda>ts. ts) s') = Some d
        \<and> (\<exists>d2. fst (exportAsTXT (\<lambda>ts. ts)
                     (onChange ''hello'' (handleSectionSelect movies sample_state))) = Some d2
               \<and> body d2 = body d))"
proof -
  let ?s = "handleSectionSelect movies sample_state"
  have a: "currentSection ?s = Some movies"
    by (simp add: handleSectionSelect_def)
  have b: "transcript (chatHistory ?s) (sec_id movies) = [sample_message, sample_reply]"
    by (simp add: handleSectionSelect_def sample_state_def initial_state_def
        sample_history_def transcript_def movies_def)
  have c: "chatHistory ?s = sample_history"
    by (simp add: handleSectionSelect_def sample_state_def initial_state_def)
  from exportAsTXT_document [OF a, of "\<lambda>ts. ts"]
  obtain d s' where e: "exportAsTXT (\<lambda>ts. ts) ?s = (Some d, s')"
    and t: "body d = join [CHR 0x0A, CHR 0x0A]
          (map (\<lambda>msg. ''['' @ timestamp msg @ ''] ''
                   @ (if role msg = ''user'' then ''You'' else ''AI'') @ '': ''
                   @ to_string (content msg))
             (transcript (chatHistory ?s) (sec_id movies)))"
    and h: "chatHistory s' = chatHistory ?s"
    and i: "fst (exportAsTXT (\<lambda>ts. ts) s') = Some d"
    and o: "\<forall>s2 sec2 d2.
           currentSection s2 = Some sec2
           \<and> transcript (chatHistory s2) (sec_id sec2) = transcript (chatHistory ?s) (sec_id movies)
           \<and> fst (exportAsTXT (\<lambda>ts. ts) s2) = Some d2
           \<longrightarrow> body d2 = body d"
    by blast
  let ?s2 = "onChange ''hello'' ?s"
  have a2: "currentSection ?s2 = Some movies"
    by (simp add: onChange_def handleSectionSelect_def)
  have b2: "transcript (chatHistory ?s2) (sec_id movies) = transcript (chatHistory ?s) (sec_id movies)"
    by (simp add: onChange_def)
  obtain d2 where e2: "fst (exportAsTXT (\<lambda>ts. ts) ?s2) = Some d2"
    using a2 by (simp add: exportAsTXT_def Let_def)
  have same: "body d2 = body d"
    using o a2 b2 e2 by blast
  have "body d = ''[2024-01-01T10:00:00.000Z] You: Dune?'' @ [CHR 0x0A, CHR 0x0A]
                    @ ''[2024-01-01T10:00:02.000Z] AI: Yes.''"
    unfolding t b by (simp add: sample_message_def sample_reply_def)
  with a e h i c e2 same show ?thesis by simp
qed

subsection \<open>Persistence\<close>

text \<open>After mounting, the storage agrees with the state.\<close>

lemma mount_saved:
  "chat_saved (mount ls) \<and> section_saved (mount ls) \<and> rendered (mount ls) = app (mount ls)"
  by (auto simp: mount_def commit_def chat_saved_def section_saved_def run_effects_def Let_def
      save_section_effect_def save_chat_effect_def initial_state_def load_effect_def
      split: option.splits)

text \<open>
  C4 (amended). No handler writes to the storage before it returns. The write is made
  by the saving effects that run after the render that follows: starting from a page
  whose storage agrees with its state, after any handler and the render that follows
  it the stored chat history is the whole chat history of the state, and the stored
  section id is the id of the selected section when one is selected. When the handler
  leaves no section selected, the stored id is not touched: it stays what it was.
\<close>

theorem persistence_by_effects:
  assumes "rendered w = app w" and "chat_saved w" and "section_saved w"
  shows "storage (act f w) = storage w
       \<and> chat_saved (commit (act f w))
       \<and> section_saved (commit (act f w))
       \<and> rendered (commit (act f w)) = app (commit (act f w))
       \<and> (currentSection (f (app w)) = None \<longrightarrow>
            ls_currentSection (storage (commit (act f w))) = ls_currentSection (storage w))"
  using assms
  by (auto simp: act_def commit_def chat_saved_def section_saved_def run_effects_def Let_def
      save_section_effect_def save_chat_effect_def split: option.splits)

theorem persistence_by_effects_witness:
  "rendered sample_browser = app sample_browser \<and> chat_saved sample_browser
   \<and> section_saved sample_browser
   \<and> storage (act clearChat sample_browser) = storage sample_browser
   \<and> ls_chatHistory (storage (commit (act clearChat sample_browser)))
       = Some [(''movies'', [sample_message, sample_reply]), (''general'', [])]
   \<and> ls_currentSection (storage (commit (act (handleSectionSelect movies) sample_browser)))
       = Some ''movies''
   \<and> currentSection (handleBackToSections (app sample_browser)) = None
   \<and> ls_currentSection (storage (commit (act handleBackToSections sample_browser)))
       = Some ''general''"
proof -
  have a: "rendered sample_browser = app sample_browser"
    by (simp add: sample_browser_def)
  have b: "chat_saved sample_browser"
    by (simp add: chat_saved_def sample_browser_def sample_storage_def sample_state_def)
  have c: "section_saved sample_browser"
    by (simp add: section_saved_def sample_browser_def sample_storage_def sample_state_def
        general_def)
  have d: "chatHistory (app (commit (act clearChat sample_browser)))
      = [(''movies'', [sample_message, sample_reply]), (''general'', [])]"
    by (simp add: commit_def act_def clearChat_def sample_browser_def sample_state_def
        sample_history_def general_def)
  have e: "currentSection (app (commit (act (handleSectionSelect movies) sample_browser)))
      = Some movies"
    by (simp add: commit_def act_def handleSectionSelect_def)
  have f: "currentSection (handleBackToSections (app sample_browser)) = None"
    by (simp add: handleBackToSections_def)
  have g: "ls_currentSection (storage sample_browser) = Some ''general''"
    by (simp add: sample_browser_def sample_storage_def)
  have m: "sec_id movies = ''movies''" by (simp add: movies_def)
  have 1: "storage (act clearChat sample_browser) = storage sample_browser"
    and 2: "chat_saved (commit (act clearChat sample_browser))"
    using persistence_by_effects [OF a b c, of clearChat] by simp_all
  have 3: "section_saved (commit (act (handleSectionSelect movies) sample_browser))"
    using persistence_by_effects [OF a b c, of "handleSectionSelect movies"] by simp
  have 4: "ls_currentSection (storage (commit (act handleBackToSections sample_browser)))
      = ls_currentSection (storage sample_browser)"
    using persistence_by_effects [OF a b c, of handleBackToSections] f by simp
  have 5: "ls_chatHistory (storage (commit (act clearChat sample_browser)))
       = Some [(''movies'', [sample_message, sample_reply]), (''general'', [])]"
    using 2 d by (simp add: chat_saved_def)
  have 6: "ls_currentSection (storage (commit (act (handleSectionSelect movies) sample_browser)))
       = Some ''movies''"
    using 3 e m by (simp add: section_saved_def)
  show ?thesis using a b c 1 5 6 f 4 g by simp
qed

text \<open>The claim as it was stated has every change persisted before the operation returns.
  When \<open>clearChat\<close> returns the storage still holds the transcript it cleared; and
  after \<open>handleBackToSections\<close> and the render that follows, the storage still names
  \<open>general\<close>, which a reload selects again.\<close>

theorem persistence_counterexample:
  "ls_chatHistory (storage (act clearChat sample_browser)) = Some sample_history
   \<and> chatHistory (app (act clearChat sample_browser))
       = [(''movies'', [sample_message, sample_reply]), (''general'', [])]
   \<and> currentSection (app (commit (act handleBackToSections sample_browser))) = None
   \<and> ls_currentSection (storage (commit (act handleBackToSections sample_browser))) = Some ''general''
   \<and> currentSection (app (mount (storage (commit (act handleBackToSections sample_browser)))))
       = Some general"
  by (simp add: act_def commit_def sample_browser_def sample_storage_def clearChat_def
      handleBackToSections_def run_effects_def save_section_effect_def save_chat_effect_def
      sample_state_def initial_state_def sample_history_def general_def
      mount_def Let_def load_effect_def find_section_def sections_def health_def banking_def)

end
